theory Spec2Isabelle
  imports Complex_Main "HOL-Library.Multiset" "HOL-Library.List_Lexorder"
begin

section \<open>Exceptions\<close>

text \<open>
  Every \<^verbatim>\<open>raise\<close> and every failing \<^verbatim>\<open>assert\<close> of the Python sources, and every exception
  the pandas and numpy calls raise on the inputs considered here, is a value of this
  type. A fallible function returns \<open>py_error + 'a\<close> with \<open>Inl\<close> for the exception.
\<close>

datatype py_error =
  AssertionError | KeyError | IndexError | ValueError | AttributeError | NameError

section \<open>The pandas and numpy operations the sources call\<close>

text \<open>
  A \<^verbatim>\<open>pandas.DataFrame\<close> is the list of its rows in storage order, each row paired with
  its index label. The label is what \<^verbatim>\<open>DataFrame.drop\<close> and \<^verbatim>\<open>.index\<close> see; the position in
  the list is what \<^verbatim>\<open>.iloc\<close> sees. Labels need not be distinct, and \<^verbatim>\<open>pd.concat\<close> keeps
  them: frames read from a file carry the labels 0, 1, 2, ...
\<close>

type_synonym ('l, 'v) DataFrame = "('l \<times> 'v list) list"

definition index :: "('l, 'v) DataFrame \<Rightarrow> 'l list" where
  "index df = map fst df"

definition values_of :: "('l, 'v) DataFrame \<Rightarrow> 'v list list" where
  "values_of df = map snd df"

text \<open>
  \<^verbatim>\<open>df.iloc[ids]\<close> with a list of integers: the rows at those positions, in the order
  asked, labels kept; a negative position counts from the end; a position out of bounds
  raises IndexError.
\<close>

fun iloc :: "('l, 'v) DataFrame \<Rightarrow> int list \<Rightarrow> py_error + ('l, 'v) DataFrame" where
  "iloc df [] = Inr []"
| "iloc df (i # ids) =
     (let n = int (length df); j = (if i < 0 then n + i else i) in
      if 0 \<le> j \<and> j < n then
        (case iloc df ids of Inl e \<Rightarrow> Inl e | Inr rs \<Rightarrow> Inr (df ! nat j # rs))
      else Inl IndexError)"

text \<open>
  \<^verbatim>\<open>df.drop(labels)\<close>: a new frame without the rows whose label is among \<open>labels\<close>
  (every row carrying such a label goes); a label that is not in the index raises
  KeyError.
\<close>

definition df_drop :: "('l, 'v) DataFrame \<Rightarrow> 'l list \<Rightarrow> py_error + ('l, 'v) DataFrame" where
  "df_drop df labels =
     (if list_ex (\<lambda>l. l \<notin> set (index df)) labels then Inl KeyError
      else Inr (filter (\<lambda>r. fst r \<notin> set labels) df))"

text \<open>\<^verbatim>\<open>pd.concat([a, b])\<close> on frames with the same columns: the rows of \<open>a\<close>, then the rows
  of \<open>b\<close>, every row with the label it had.\<close>

definition pd_concat :: "('l, 'v) DataFrame \<Rightarrow> ('l, 'v) DataFrame \<Rightarrow> ('l, 'v) DataFrame" where
  "pd_concat a b = a @ b"

text \<open>
  Randomness. The generator is a parameter \<open>rng\<close>: its \<open>k\<close>-th raw draw is \<open>rng k\<close>, reduced
  modulo the size of the population it chooses from. Every function below is
  deterministic in \<open>rng\<close>, and every sequence of draws is some \<open>rng\<close>.

  \<^verbatim>\<open>np.random.choice(a, size=n)\<close> draws with replacement (numpy's default
  \<^verbatim>\<open>replace=True\<close>): \<open>n\<close> independent draws from \<open>a\<close>. It raises ValueError on a negative
  size, and on an empty \<open>a\<close> unless no sample is taken.
\<close>

definition np_random_choice :: "(nat \<Rightarrow> nat) \<Rightarrow> 'a list \<Rightarrow> int \<Rightarrow> py_error + 'a list" where
  "np_random_choice rng a n =
     (if n < 0 then Inl ValueError
      else if a = [] \<and> 0 < n then Inl ValueError
      else Inr (map (\<lambda>k. a ! (rng k mod length a)) [0..<nat n]))"

text \<open>
  \<^verbatim>\<open>df.sample(n, random_state=...)\<close> draws without replacement (pandas' default
  \<^verbatim>\<open>replace=False\<close>): \<open>n\<close> rows at distinct positions, in the order drawn, labels kept. It
  raises ValueError on a negative \<open>n\<close> and on \<open>n\<close> larger than the frame.
\<close>

fun draw_without_replacement :: "(nat \<Rightarrow> nat) \<Rightarrow> nat \<Rightarrow> 'a list \<Rightarrow> 'a list" where
  "draw_without_replacement rng 0 xs = []"
| "draw_without_replacement rng (Suc k) xs =
     (if xs = [] then []
      else (let i = rng k mod length xs in
            xs ! i # draw_without_replacement rng k (take i xs @ drop (Suc i) xs)))"

definition df_sample :: "(nat \<Rightarrow> nat) \<Rightarrow> ('l, 'v) DataFrame \<Rightarrow> int \<Rightarrow> py_error + ('l, 'v) DataFrame" where
  "df_sample rng df n =
     (if n < 0 then Inl ValueError
      else if int (length df) < n then Inl ValueError
      else Inr (draw_without_replacement rng (nat n) df))"

text \<open>
  \<^verbatim>\<open>pd.merge(left, right, how='outer', indicator=True)\<close> on two frames with the same
  columns joins on all of them. As pandas documents \<^verbatim>\<open>how='outer'\<close>, the result holds the
  union of the keys of both frames, sorted lexicographically; within a key, every left
  row is paired with every right row of that key (\<^verbatim>\<open>both\<close>), and a key of one frame only
  keeps that frame's rows (\<^verbatim>\<open>left_only\<close>, \<^verbatim>\<open>right_only\<close>). The result has a fresh index
  0, 1, 2, ...: the labels of \<open>left\<close> and \<open>right\<close> are gone, and a row of the result is
  known by its position. The model is the list of the result's rows with the
  \<^verbatim>\<open>_merge\<close> column. Releases of pandas before 2.2 did not sort: they kept the keys in
  the order of their first appearance, the rows of one key still together. On a left
  frame whose first appearances are in ascending order, such as the rows 3, 5, 3, the
  two orders give the same frame.
\<close>

datatype merge_indicator = left_only | right_only | both

definition merge_group :: "'v list list \<Rightarrow> 'v list list \<Rightarrow> 'v list \<Rightarrow> ('v list \<times> merge_indicator) list" where
  "merge_group left right k =
     (let l = filter (\<lambda>r. r = k) left; r = filter (\<lambda>r. r = k) right in
      if r = [] then map (\<lambda>x. (x, left_only)) l
      else if l = [] then map (\<lambda>y. (y, right_only)) r
      else concat (map (\<lambda>x. map (\<lambda>y. (x, both)) r) l))"

definition pd_merge_outer ::
  "('l, 'v::linorder) DataFrame \<Rightarrow> ('l, 'v) DataFrame \<Rightarrow> ('v list \<times> merge_indicator) list" where
  "pd_merge_outer left right =
     concat (map (merge_group (values_of left) (values_of right))
                 (sort (remdups (values_of left @ values_of right))))"

text \<open>\<^verbatim>\<open>merged[merged['_merge'] == 'both'].index.values\<close>: the positions, in the merged
  frame, of the rows found in both frames.\<close>

definition both_index :: "('v list \<times> merge_indicator) list \<Rightarrow> nat list" where
  "both_index merged = map fst (filter (\<lambda>p. snd (snd p) = both) (enumerate 0 merged))"

text \<open>
  Floats are modelled as rationals: every finite float is one, and the concrete inputs
  evaluated below (0, 1/2, 1, 2) and their products with small integers are exact in
  binary floating point. \<^verbatim>\<open>int(x)\<close> truncates toward zero; \<^verbatim>\<open>np.round(x, 0)\<close> rounds to
  the nearest integer, a tie to the even one.
\<close>

definition py_int :: "rat \<Rightarrow> int" where
  "py_int x = (if 0 \<le> x then \<lfloor>x\<rfloor> else \<lceil>x\<rceil>)"

definition np_round :: "rat \<Rightarrow> rat" where
  "np_round x =
     (let f = \<lfloor>x\<rfloor>; d = x - of_int f in
      if d < 1 / 2 then of_int f
      else if 1 / 2 < d then of_int (f + 1)
      else if even f then of_int f else of_int (f + 1))"

section \<open>TabularDataset\<close>

text \<open>
  \<^verbatim>\<open>TabularDataset.__init__\<close> stores its two arguments. The description is an external
  object of which only equality is used; it is a type parameter.
\<close>

record ('l, 'v, 's) TabularDataset =
  data :: "('l, 'v) DataFrame"
  description :: 's

definition len :: "('l, 'v, 's) TabularDataset \<Rightarrow> nat" where
  "len D = length (data D)"

text \<open>
  \<^verbatim>\<open>sample(n_samples=1, frac=None, random_state=None)\<close>; the argument \<^verbatim>\<open>frac\<close> is
  \<open>fraction\<close> here, and the random state is \<open>rng\<close>. The test \<^verbatim>\<open>if frac:\<close> is Python
  truthiness: it is false for \<^verbatim>\<open>None\<close> and for \<^verbatim>\<open>0.0\<close>. The product \<^verbatim>\<open>frac * len(self)\<close> is
  taken exactly here, where Python rounds it to a float before \<^verbatim>\<open>int\<close> truncates it: the
  two agree where the float product is exact, as at the fraction 0.0, and may differ by
  one row elsewhere (0.29 of 100 rows: 29 here, 28 in Python).
\<close>

definition sample ::
  "(nat \<Rightarrow> nat) \<Rightarrow> ('l, 'v, 's) TabularDataset \<Rightarrow> int \<Rightarrow> rat option \<Rightarrow>
     py_error + ('l, 'v, 's) TabularDataset" where
  "sample rng D n_samples fraction =
     (let n = (case fraction of
                 None \<Rightarrow> n_samples
               | Some f \<Rightarrow> if f \<noteq> 0 then py_int (f * of_nat (len D)) else n_samples) in
      case df_sample rng (data D) n of
        Inl e \<Rightarrow> Inl e
      | Inr rows \<Rightarrow> Inr \<lparr>data = rows, description = description D\<rparr>)"

definition get_records ::
  "('l, 'v, 's) TabularDataset \<Rightarrow> int list \<Rightarrow> py_error + ('l, 'v, 's) TabularDataset" where
  "get_records D record_ids =
     (case iloc (data D) record_ids of
        Inl e \<Rightarrow> Inl e
      | Inr rows \<Rightarrow> Inr \<lparr>data = rows, description = description D\<rparr>)"

text \<open>
  The methods with an \<^verbatim>\<open>in_place\<close> flag may assign \<^verbatim>\<open>self.data\<close>. Each returns the
  receiver as the call leaves it, also when the call raises, and the outcome: the
  exception, or the returned value, where \<open>None\<close> is Python's \<^verbatim>\<open>None\<close>.
\<close>

type_synonym ('l, 'v, 's) outcome =
  "('l, 'v, 's) TabularDataset \<times> (py_error + ('l, 'v, 's) TabularDataset option)"

definition drop_records ::
  "(nat \<Rightarrow> nat) \<Rightarrow> ('l, 'v, 's) TabularDataset \<Rightarrow> 'l list \<Rightarrow> int \<Rightarrow> bool \<Rightarrow> ('l, 'v, 's) outcome" where
  "drop_records rng D record_ids n in_place =
     (case (if length record_ids = 0 then np_random_choice rng (index (data D)) n
            else Inr record_ids) of
        Inl e \<Rightarrow> (D, Inl e)
      | Inr ids \<Rightarrow>
          (case df_drop (data D) ids of
             Inl e \<Rightarrow> (D, Inl e)
           | Inr new_data \<Rightarrow>
               if in_place then (D\<lparr>data := new_data\<rparr>, Inr None)
               else (D, Inr (Some \<lparr>data = new_data, description = description D\<rparr>))))"

definition add ::
  "('l, 'v, 's) TabularDataset \<Rightarrow> ('l, 'v, 's) TabularDataset \<Rightarrow>
     py_error + ('l, 'v, 's) TabularDataset" where
  "add D other =
     (if description D \<noteq> description other then Inl AssertionError
      else Inr \<lparr>data = pd_concat (data D) (data other), description = description D\<rparr>)"

definition add_records ::
  "('l, 'v, 's) TabularDataset \<Rightarrow> ('l, 'v, 's) TabularDataset \<Rightarrow> bool \<Rightarrow> ('l, 'v, 's) outcome" where
  "add_records D records in_place =
     (if in_place then
        (if description D \<noteq> description records then (D, Inl AssertionError)
         else (D\<lparr>data := pd_concat (data D) (data records)\<rparr>, Inr None))
      else (case add D records of Inl e \<Rightarrow> (D, Inl e) | Inr R \<Rightarrow> (D, Inr (Some R))))"

text \<open>
  \<^verbatim>\<open>replace(records_in, records_out=[], in_place=False)\<close>. In place, the two calls work
  on the receiver one after the other; an exception of the second leaves what the first
  did. Not in place, \<^verbatim>\<open>drop_records\<close> returns a dataset (never \<^verbatim>\<open>None\<close>, whose
  \<^verbatim>\<open>add_records\<close> would be an AttributeError) and \<^verbatim>\<open>add_records\<close> is called on it.
\<close>

definition replace ::
  "(nat \<Rightarrow> nat) \<Rightarrow> ('l, 'v, 's) TabularDataset \<Rightarrow> ('l, 'v, 's) TabularDataset \<Rightarrow> 'l list \<Rightarrow> bool \<Rightarrow>
     ('l, 'v, 's) outcome" where
  "replace rng D records_in records_out in_place =
     (if 0 < length records_out \<and> length records_out \<noteq> len records_in then (D, Inl AssertionError)
      else if in_place then
        (case drop_records rng D records_out (int (len records_in)) in_place of
           (D1, Inl e) \<Rightarrow> (D1, Inl e)
         | (D1, Inr _) \<Rightarrow>
             (case add_records D1 records_in in_place of
                (D2, Inl e) \<Rightarrow> (D2, Inl e)
              | (D2, Inr _) \<Rightarrow> (D2, Inr None)))
      else
        (case drop_records rng D records_out (int (len records_in)) False of
           (D1, Inl e) \<Rightarrow> (D1, Inl e)
         | (D1, Inr None) \<Rightarrow> (D1, Inl AttributeError)
         | (D1, Inr (Some reduced_dataset)) \<Rightarrow>
             (D1, snd (add_records reduced_dataset records_in False))))"

definition empty :: "('l, 'v, 's) TabularDataset \<Rightarrow> py_error + ('l, 'v, 's) TabularDataset" where
  "empty D = get_records D []"

section \<open>TabularRecord\<close>

text \<open>
  A \<^verbatim>\<open>TabularRecord\<close> is a \<^verbatim>\<open>TabularDataset\<close> with one more attribute, \<^verbatim>\<open>id\<close> (here
  \<open>ident\<close>). \<^verbatim>\<open>from_dataset\<close> checks the number of rows; \<^verbatim>\<open>__init__\<close> does not.
\<close>

record ('l, 'v, 's) TabularRecord = "('l, 'v, 's) TabularDataset" +
  ident :: 'l

definition from_dataset ::
  "('l, 'v, 's, 'z) TabularDataset_scheme \<Rightarrow> py_error + ('l, 'v, 's) TabularRecord" where
  "from_dataset tabular_row =
     (case data tabular_row of
        [r] \<Rightarrow> Inr \<lparr>data = data tabular_row, description = description tabular_row, ident = fst r\<rparr>
      | _ \<Rightarrow> Inl AssertionError)"

text \<open>\<^verbatim>\<open>get_id\<close> returns a label of the merged frame, that is a position in it.\<close>

definition get_id ::
  "('l, 'v::linorder, 's) TabularRecord \<Rightarrow> ('l, 'v, 's) TabularDataset \<Rightarrow> py_error + int" where
  "get_id r tabular_dataset =
     (let merged = pd_merge_outer (data tabular_dataset) (data r) in
      case both_index merged of
        [i] \<Rightarrow> Inr (int i)
      | _ \<Rightarrow> Inl AssertionError)"

text \<open>
  \<^verbatim>\<open>set_id\<close> assigns \<^verbatim>\<open>self.id\<close>, then \<^verbatim>\<open>self.data.index = pd.Index([identifier])\<close>, which
  pandas refuses with ValueError unless the frame has exactly one row. It returns the
  record as the call leaves it and the outcome (\<open>Inr ()\<close> is the bare \<^verbatim>\<open>return\<close>). The
  frame of a record is the very object \<^verbatim>\<open>from_dataset\<close> was given, so the dataset the
  record was made from sees the new label too; only the record is followed here.
\<close>

definition set_id ::
  "('l, 'v, 's) TabularRecord \<Rightarrow> 'l \<Rightarrow> ('l, 'v, 's) TabularRecord \<times> (py_error + unit)" where
  "set_id r identifier =
     (let r1 = r\<lparr>ident := identifier\<rparr> in
      case data r1 of
        [row] \<Rightarrow> (r1\<lparr>data := [(identifier, snd row)]\<rparr>, Inr ())
      | _ \<Rightarrow> (r1, Inl ValueError))"

section \<open>Groundhog\<close>

text \<open>
  \<^verbatim>\<open>Groundhog.__init__\<close> assigns \<^verbatim>\<open>classifier\<close>, \<^verbatim>\<open>data_description\<close> and \<^verbatim>\<open>trained\<close> (and
  \<^verbatim>\<open>__name__\<close>, a string no method reads). \<^verbatim>\<open>attack_score\<close> reads two more attributes,
  \<^verbatim>\<open>FeatureSet\<close> and \<^verbatim>\<open>Classifier\<close>, which no line of the sources assigns: for each, \<open>None\<close>
  says that the instance has no such attribute, so that reading it raises
  AttributeError, and \<open>Some v\<close> that the attribute is there with the value \<open>v\<close>. A
  \<^verbatim>\<open>FeatureSet\<close> that is there may be Python's \<^verbatim>\<open>None\<close>, the inner \<open>None\<close>.

  The base class \<^verbatim>\<open>Attack\<close> (module \<^verbatim>\<open>base_classes\<close>) is not among the sources, and
  \<^verbatim>\<open>Groundhog.__init__\<close> does not call its \<^verbatim>\<open>__init__\<close>. What an instance inherits from it
  for the two attributes, as class attributes, is a parameter of \<open>init\<close>; an abstract
  base class that declares methods only gives \<open>None\<close> for both.

  The classifier, the threat model and the feature extractor are external: their
  methods are parameters (\<open>fit\<close>, \<open>predict\<close>, \<open>predict_proba\<close>,
  \<open>generate_training_samples\<close>, \<open>extract\<close>). \<open>fit\<close> returns the classifier as the call
  leaves it and the exception it raised, if any.
\<close>

record ('c, 'f, 's) Groundhog =
  classifier :: 'c
  data_description :: 's
  trained :: bool
  FeatureSet :: "'f option option"
  Classifier :: "'c option"

definition init :: "'f option option \<Rightarrow> 'c option \<Rightarrow> 'c \<Rightarrow> 's \<Rightarrow> ('c, 'f, 's) Groundhog" where
  "init inherited_FeatureSet inherited_Classifier clf descr =
     \<lparr>classifier = clf, data_description = descr, trained = False,
      FeatureSet = inherited_FeatureSet, Classifier = inherited_Classifier\<rparr>"

definition train ::
  "('c \<Rightarrow> 'd list \<Rightarrow> int list \<Rightarrow> 'c \<times> py_error option) \<Rightarrow>
   ('t \<Rightarrow> int \<Rightarrow> py_error + ('d list \<times> int list)) \<Rightarrow>
   ('c, 'f, 's) Groundhog \<Rightarrow> 't option \<Rightarrow> int \<Rightarrow> 'd list option \<Rightarrow> int list option \<Rightarrow>
     ('c, 'f, 's) Groundhog \<times> (py_error + unit)" where
  "train fit generate_training_samples G threat_model num_samples synthetic_datasets labels =
     (case (if synthetic_datasets = None \<or> labels = None then
              (case threat_model of
                 None \<Rightarrow> Inl AttributeError
               | Some tm \<Rightarrow> generate_training_samples tm num_samples)
            else Inr (the synthetic_datasets, the labels)) of
        Inl e \<Rightarrow> (G, Inl e)
      | Inr (ds, ls) \<Rightarrow>
          (case fit (classifier G) ds ls of
             (c', Some e) \<Rightarrow> (G\<lparr>classifier := c'\<rparr>, Inl e)
           | (c', None) \<Rightarrow> (G\<lparr>classifier := c', trained := True\<rparr>, Inr ())))"

definition attack ::
  "('c \<Rightarrow> 'd list \<Rightarrow> py_error + rat list) \<Rightarrow> ('c, 'f, 's) Groundhog \<Rightarrow> 'd list \<Rightarrow>
     py_error + rat list" where
  "attack predict G datasets =
     (if \<not> trained G then Inl AssertionError
      else (case predict (classifier G) datasets of
              Inl e \<Rightarrow> Inl e
            | Inr scores \<Rightarrow> Inr (map np_round scores)))"

text \<open>A list comprehension whose body may raise: the first exception ends it.\<close>

fun comprehension :: "('a \<Rightarrow> py_error + 'b) \<Rightarrow> 'a list \<Rightarrow> py_error + 'b list" where
  "comprehension f [] = Inr []"
| "comprehension f (x # xs) =
     (case f x of
        Inl e \<Rightarrow> Inl e
      | Inr y \<Rightarrow> (case comprehension f xs of Inl e \<Rightarrow> Inl e | Inr ys \<Rightarrow> Inr (y # ys)))"

text \<open>
  What \<^verbatim>\<open>attack_score\<close> may find in \<^verbatim>\<open>synT\<close>: a pandas frame (the \<^verbatim>\<open>isinstance\<close> test), a
  numpy array of two dimensions, which has \<^verbatim>\<open>flatten\<close>, or any other object, such as a
  \<^verbatim>\<open>TabularDataset\<close>, which has not.
\<close>

datatype 'd syn_input = Frame 'd | Array "rat list list" | Object 'd

text \<open>\<^verbatim>\<open>s.flatten()\<close>: the rows of an array one after the other; no frame and no other
  object has the method.\<close>

fun flatten :: "'d syn_input \<Rightarrow> py_error + rat list" where
  "flatten (Array a) = Inr (concat a)"
| "flatten (Frame d) = Inl AttributeError"
| "flatten (Object d) = Inl AttributeError"

text \<open>\<^verbatim>\<open>np.stack\<close> of a list of vectors: ValueError on the empty list and on vectors of
  different lengths.\<close>

definition np_stack :: "rat list list \<Rightarrow> py_error + rat list list" where
  "np_stack vs =
     (if vs = [] then Inl ValueError
      else if list_ex (\<lambda>v. length v \<noteq> length (hd vs)) vs then Inl ValueError
      else Inr vs)"

text \<open>\<^verbatim>\<open>p[s]\<close> on a row of probabilities: a negative \<open>s\<close> counts from the end, an \<open>s\<close> out of
  bounds raises IndexError.\<close>

definition getitem :: "rat list \<Rightarrow> int \<Rightarrow> py_error + rat" where
  "getitem p s =
     (let n = int (length p); j = (if s < 0 then n + s else s) in
      if 0 \<le> j \<and> j < n then Inr (p ! nat j) else Inl IndexError)"

text \<open>
  \<^verbatim>\<open>attack_score(synT, secret)\<close>. In the branch for frames the name
  \<^verbatim>\<open>convert_df_to_array\<close> is looked up first, and the module neither defines nor imports
  it: NameError. \<^verbatim>\<open>zip\<close> stops at the shorter of its two arguments.
\<close>

definition attack_score ::
  "('f \<Rightarrow> 'd syn_input \<Rightarrow> py_error + rat list) \<Rightarrow>
   ('c \<Rightarrow> rat list list \<Rightarrow> py_error + rat list list) \<Rightarrow>
   ('c, 'f, 's) Groundhog \<Rightarrow> 'd syn_input list \<Rightarrow> int list \<Rightarrow> py_error + rat list" where
  "attack_score extract predict_proba G synT secret =
     (if \<not> trained G then Inl AssertionError
      else
        (case FeatureSet G of
           None \<Rightarrow> Inl AttributeError
         | Some fs \<Rightarrow>
             (case (case fs of
                      Some f \<Rightarrow>
                        (case comprehension (extract f) synT of
                           Inl e \<Rightarrow> Inl e | Inr vs \<Rightarrow> np_stack vs)
                    | None \<Rightarrow>
                        (case synT of
                           [] \<Rightarrow> Inl IndexError
                         | Frame d # rest \<Rightarrow> Inl NameError
                         | first # rest \<Rightarrow>
                             (case comprehension flatten synT of
                                Inl e \<Rightarrow> Inl e | Inr vs \<Rightarrow> np_stack vs))) of
                Inl e \<Rightarrow> Inl e
              | Inr features \<Rightarrow>
                  (case Classifier G of
                     None \<Rightarrow> Inl AttributeError
                   | Some c \<Rightarrow>
                       (case predict_proba c features of
                          Inl e \<Rightarrow> Inl e
                        | Inr probs \<Rightarrow>
                            comprehension (\<lambda>ps. getitem (fst ps) (snd ps)) (zip probs secret))))))"

section \<open>Inputs for the evaluations\<close>

definition rng_zero :: "nat \<Rightarrow> nat" where
  "rng_zero k = 0"

definition D_three :: "(int, int, string) TabularDataset" where
  "D_three = \<lparr>data = [(0, [3]), (1, [5]), (2, [3])], description = ''s''\<rparr>"

definition D_two :: "(int, int, string) TabularDataset" where
  "D_two = \<lparr>data = [(0, [1]), (1, [2])], description = ''s''\<rparr>"

definition D_dup :: "(int, int, string) TabularDataset" where
  "D_dup = \<lparr>data = [(0, [1]), (0, [2])], description = ''s''\<rparr>"

definition D_same :: "(int, int, string) TabularDataset" where
  "D_same = \<lparr>data = [(0, [3]), (1, [8])], description = ''s''\<rparr>"

text \<open>The rows of \<open>D_three\<close> followed by the rows of \<open>D_same\<close>, as \<open>+\<close> gives them: the
  labels are 0, 1, 2, 0, 1.\<close>

definition D_cat :: "(int, int, string) TabularDataset" where
  "D_cat = \<lparr>data = [(0, [3]), (1, [5]), (2, [3]), (0, [3]), (1, [8])], description = ''s''\<rparr>"

definition D_other :: "(int, int, string) TabularDataset" where
  "D_other = \<lparr>data = [(7, [9])], description = ''t''\<rparr>"

definition r_one :: "(int, int, string) TabularRecord" where
  "r_one = \<lparr>data = [(1, [5])], description = ''s'', ident = 1\<rparr>"

text \<open>A classifier that counts its fits and scores a dataset by a number the dataset
  carries; one whose \<open>fit\<close> raises; a threat model without samples.\<close>

definition fit_ok :: "nat \<Rightarrow> rat list \<Rightarrow> int list \<Rightarrow> nat \<times> py_error option" where
  "fit_ok c ds ls = (Suc c, None)"

definition fit_fails :: "nat \<Rightarrow> rat list \<Rightarrow> int list \<Rightarrow> nat \<times> py_error option" where
  "fit_fails c ds ls = (c, Some ValueError)"

definition no_samples :: "unit \<Rightarrow> int \<Rightarrow> py_error + (rat list \<times> int list)" where
  "no_samples tm n = Inr ([], [])"

definition predict_score :: "nat \<Rightarrow> rat list \<Rightarrow> py_error + rat list" where
  "predict_score c ds = Inr ds"

definition predict_proba_half :: "nat \<Rightarrow> rat list list \<Rightarrow> py_error + rat list list" where
  "predict_proba_half c features = Inr (map (\<lambda>v. [1 / 2, 1 / 2]) features)"

definition extract_none :: "unit \<Rightarrow> rat syn_input \<Rightarrow> py_error + rat list" where
  "extract_none f s = Inr []"

definition G_new :: "(nat, unit, string) Groundhog" where
  "G_new = init None None 0 ''s''"

definition G_trained :: "(nat, unit, string) Groundhog" where
  "G_trained = fst (train fit_ok no_samples G_new None 100 (Some [1 / 4, 3 / 4]) (Some [0, 1]))"

section \<open>Auxiliary facts\<close>

lemma list_ex_not_member:
  "set S \<subseteq> set xs \<Longrightarrow> \<not> list_ex (\<lambda>l. l \<notin> set xs) S"
  by (auto simp: list_ex_iff)

lemma length_filter_disj:
  "(\<And>x. \<not> (P x \<and> Q x)) \<Longrightarrow>
     length (filter (\<lambda>x. P x \<or> Q x) xs) = length (filter P xs) + length (filter Q xs)"
  by (induction xs) auto

lemma length_filter_once:
  assumes "distinct S" and "\<forall>l\<in>set S. count_list xs l = 1"
  shows "length (filter (\<lambda>x. x \<in> set S) xs) = length S"
  using assms
proof (induction S)
  case Nil
  then show ?case by simp
next
  case (Cons a S)
  have "length (filter (\<lambda>x. x \<in> set (a # S)) xs)
      = length (filter (\<lambda>x. x = a \<or> x \<in> set S) xs)"
    by simp
  also have "\<dots> = length (filter (\<lambda>x. x = a) xs) + length (filter (\<lambda>x. x \<in> set S) xs)"
    using Cons.prems(1) by (intro length_filter_disj) auto
  also have "length (filter (\<lambda>x. x = a) xs) = count_list xs a"
    by (induction xs) auto
  finally show ?case using Cons by simp
qed

lemma length_filter_labels_once:
  assumes "distinct S" and "\<forall>l\<in>set S. count_list (map fst df) l = 1"
  shows "length (filter (\<lambda>r. fst r \<in> set S) df) = length S"
proof -
  have "length (filter (\<lambda>r. fst r \<in> set S) df) = length (filter (\<lambda>l. l \<in> set S) (map fst df))"
    by (simp add: filter_map comp_def)
  also have "\<dots> = length S"
    using assms by (rule length_filter_once)
  finally show ?thesis .
qed

lemma length_filter_split:
  "length (filter (\<lambda>r. \<not> P r) xs) = length xs - length (filter P xs)"
  using sum_length_filter_compl [of P xs] by arith

lemma mset_map_filter_partition:
  "mset (map f (filter (\<lambda>r. \<not> P r) xs)) + mset (map f (filter P xs)) = mset (map f xs)"
  by (induction xs) simp_all

lemma draw_without_replacement_length:
  "k \<le> length xs \<Longrightarrow> length (draw_without_replacement rng k xs) = k"
proof (induction k arbitrary: xs)
  case 0
  then show ?case by simp
next
  case (Suc k)
  then have nonempty: "xs \<noteq> []" by auto
  let ?i = "rng k mod length xs"
  have "?i < length xs" using nonempty by simp
  then have "length (take ?i xs @ drop (Suc ?i) xs) = length xs - 1" by simp
  with Suc show ?case using nonempty by (simp add: Let_def)
qed

lemma drop_records_description:
  "snd (drop_records rng D ids n False) = Inr r \<Longrightarrow> \<exists>R. r = Some R \<and> description R = description D"
  by (auto simp: drop_records_def split: sum.splits if_splits)

lemma add_description: "add D other = Inr R \<Longrightarrow> description R = description D"
  by (auto simp: add_def split: if_splits)

lemma add_records_description:
  "snd (add_records D other False) = Inr r \<Longrightarrow> \<exists>R. r = Some R \<and> description R = description D"
  by (auto simp: add_records_def dest: add_description split: sum.splits)

lemma replace_description:
  assumes "snd (replace rng D records_in records_out False) = Inr r"
  shows "\<exists>R. r = Some R \<and> description R = description D"
proof -
  obtain D1 res where dr: "drop_records rng D records_out (int (len records_in)) False = (D1, res)"
    by (cases "drop_records rng D records_out (int (len records_in)) False")
  show ?thesis
  proof (cases res)
    case (Inl e)
    with assms dr show ?thesis by (simp add: replace_def split: if_splits)
  next
    case (Inr o1)
    with dr have "snd (drop_records rng D records_out (int (len records_in)) False) = Inr o1"
      by simp
    then obtain reduced where red: "o1 = Some reduced" "description reduced = description D"
      using drop_records_description by blast
    with Inr dr assms have "snd (add_records reduced records_in False) = Inr r"
      by (simp add: replace_def split: if_splits)
    then show ?thesis
      using add_records_description red(2) by fastforce
  qed
qed

lemma np_round_near:
  assumes "- 1 / 2 \<le> x" and "x < 3 / 2"
  shows "np_round x = 0 \<or> np_round x = 1"
proof -
  consider "x < 0" | "0 \<le> x \<and> x < 1" | "1 \<le> x" by linarith
  then show ?thesis
  proof cases
    case 1
    with assms have "\<lfloor>x\<rfloor> = - 1" by (intro floor_unique) auto
    with assms 1 show ?thesis by (auto simp: np_round_def Let_def)
  next
    case 2
    then have "\<lfloor>x\<rfloor> = 0" by (intro floor_unique) auto
    with 2 show ?thesis by (auto simp: np_round_def Let_def)
  next
    case 3
    with assms have "\<lfloor>x\<rfloor> = 1" by (intro floor_unique) auto
    with assms 3 show ?thesis by (auto simp: np_round_def Let_def)
  qed
qed

lemma np_round_half:
  assumes "- 1 / 2 \<le> x" and "x < 3 / 2"
  shows "np_round x = (if x \<le> 1 / 2 then 0 else 1)"
proof -
  consider "x < 0" | "0 \<le> x \<and> x < 1" | "1 \<le> x" by linarith
  then show ?thesis
  proof cases
    case 1
    with assms have "\<lfloor>x\<rfloor> = - 1" by (intro floor_unique) auto
    with assms 1 show ?thesis by (auto simp: np_round_def Let_def)
  next
    case 2
    then have "\<lfloor>x\<rfloor> = 0" by (intro floor_unique) auto
    with 2 show ?thesis by (auto simp: np_round_def Let_def)
  next
    case 3
    with assms have "\<lfloor>x\<rfloor> = 1" by (intro floor_unique) auto
    with assms 3 show ?thesis by (auto simp: np_round_def Let_def)
  qed
qed

lemma np_round_binary_only_near:
  assumes "np_round x = 0 \<or> np_round x = 1"
  shows "- 1 / 2 \<le> x \<and> x < 3 / 2"
proof -
  define f where "f = \<lfloor>x\<rfloor>"
  have lo: "of_int f \<le> x" and hi: "x < of_int f + 1"
    unfolding f_def by linarith+
  have cases: "np_round x = of_int f \<and> x - of_int f \<le> 1 / 2 \<and> (x - of_int f = 1 / 2 \<longrightarrow> even f)
      \<or> np_round x = of_int (f + 1) \<and> 1 / 2 \<le> x - of_int f \<and> (x - of_int f = 1 / 2 \<longrightarrow> odd f)"
    unfolding np_round_def Let_def f_def by auto
  have e1: "((of_int (f + 1) :: rat) = 0) = (f = - 1)"
    using of_int_eq_0_iff [of "f + 1", where ?'a = rat] by linarith
  have e2: "((of_int (f + 1) :: rat) = 1) = (f = 0)"
    using of_int_eq_1_iff [of "f + 1", where ?'a = rat] by linarith
  from assms cases have "(f = 0 \<or> f = 1) \<and> x - of_int f \<le> 1 / 2 \<and> (x - of_int f = 1 / 2 \<longrightarrow> even f)
      \<or> (f = - 1 \<or> f = 0) \<and> 1 / 2 \<le> x - of_int f \<and> (x - of_int f = 1 / 2 \<longrightarrow> odd f)"
    using e1 e2 by auto
  then show ?thesis using lo hi by auto
qed

lemma np_round_binary_elem:
  "(np_round x = 0 \<or> np_round x = 1) = (- 1 / 2 \<le> x \<and> x < 3 / 2)"
  using np_round_near [of x] np_round_binary_only_near [of x] by blast

lemma np_round_binary_iff:
  "list_all (\<lambda>g. g = 0 \<or> g = 1) (map np_round scores)
     = list_all (\<lambda>x. - 1 / 2 \<le> x \<and> x < 3 / 2) scores"
  by (induction scores) (simp_all only: list.map list.pred_inject np_round_binary_elem)

lemma np_round_three_halves: "np_round (3 / 2) = 2"
proof -
  have "\<lfloor>3 / 2 :: rat\<rfloor> = 1" by (intro floor_unique) auto
  then show ?thesis by (simp add: np_round_def Let_def)
qed

lemma train_trained:
  "train fit gen G tm num_samples ds ls = (G', Inr ()) \<Longrightarrow> trained G'"
  by (auto simp: train_def split: sum.splits prod.splits option.splits if_splits)

lemma train_failed:
  "train fit gen G tm num_samples ds ls = (G', Inl e) \<Longrightarrow> trained G' = trained G"
  by (auto simp: train_def split: sum.splits prod.splits option.splits if_splits)

lemma G_trained_eq:
  "train fit_ok no_samples G_new None 100 (Some [1 / 4, 3 / 4]) (Some [0, 1]) = (G_trained, Inr ())"
  by (simp add: G_trained_def train_def fit_ok_def)

lemma comprehension_getitem:
  assumes "length probs = length secret"
    and "list_all (\<lambda>p. length p = 2) probs" and "list_all (\<lambda>s. s = 0 \<or> s = 1) secret"
  shows "comprehension (\<lambda>ps. getitem (fst ps) (snd ps)) (zip probs secret)
           = Inr (map (\<lambda>ps. fst ps ! nat (snd ps)) (zip probs secret))"
  using assms by (induction probs secret rule: list_induct2) (auto simp: getitem_def)

text \<open>
  Without the attribute \<^verbatim>\<open>Classifier\<close>, \<^verbatim>\<open>attack_score\<close> returns no value, whatever the
  instance and the inputs: it raises.
\<close>

lemma attack_score_without_Classifier:
  "Classifier G = None \<Longrightarrow> isl (attack_score extract predict_proba G synT secret)"
  by (simp add: attack_score_def split: option.splits sum.splits list.splits syn_input.splits)

text \<open>
  Were the two attributes attached to the instance, \<^verbatim>\<open>attack_score\<close> would return, for a
  classifier whose \<^verbatim>\<open>predict_proba\<close> gives one pair of probabilities per input, the
  probability of the true label of each input.
\<close>

lemma attack_score_attached:
  assumes "trained G" and "FeatureSet G = Some (Some f)" and "Classifier G = Some c"
    and "comprehension (extract f) synT = Inr vs" and "np_stack vs = Inr features"
    and "predict_proba c features = Inr probs"
    and "length probs = length synT" and "length secret = length synT"
    and "list_all (\<lambda>p. length p = 2) probs"
    and "list_all (\<lambda>s. s = 0 \<or> s = 1) secret"
  shows "attack_score extract predict_proba G synT secret
           = Inr (map (\<lambda>ps. fst ps ! nat (snd ps)) (zip probs secret))"
  using assms comprehension_getitem [of probs secret] by (simp add: attack_score_def)

text \<open>The checks that do come before any assignment to \<^verbatim>\<open>self.data\<close>: the length check
  of \<^verbatim>\<open>replace\<close>, and the description check of \<^verbatim>\<open>add_records\<close> in place.\<close>

lemma replace_length_check_first:
  "0 < length records_out \<Longrightarrow> length records_out \<noteq> len records_in \<Longrightarrow>
     replace rng D records_in records_out in_place = (D, Inl AssertionError)"
  by (simp add: replace_def)

lemma add_records_in_place_check_first:
  "description D \<noteq> description records \<Longrightarrow> add_records D records True = (D, Inl AssertionError)"
  by (simp add: add_records_def)

text \<open>With a fraction that is not zero, \<^verbatim>\<open>sample\<close> ignores \<^verbatim>\<open>n_samples\<close>; without a
  fraction, more rows than the dataset has cannot be drawn.\<close>

lemma sample_fraction_rows:
  assumes "f \<noteq> 0" and "0 \<le> py_int (f * of_nat (len D))"
    and "py_int (f * of_nat (len D)) \<le> int (len D)"
  shows "\<exists>R. sample rng D n_samples (Some f) = Inr R \<and>
             int (len R) = py_int (f * of_nat (len D)) \<and> description R = description D"
  using assms by (simp add: sample_def df_sample_def len_def draw_without_replacement_length)

lemma sample_more_than_population:
  "int (len D) < n_samples \<Longrightarrow> sample rng D n_samples None = Inl ValueError"
  by (simp add: sample_def df_sample_def len_def)

section \<open>The claims\<close>

text \<open>
  C1. For a trained attack and lists \<^verbatim>\<open>synT\<close> and \<^verbatim>\<open>secret\<close> of equal length with every
  secret 0 or 1, \<^verbatim>\<open>attack_score\<close> is to return, for each input, the probability the
  classifier gave to the true label, a value in [0, 1]. On an instance that
  \<^verbatim>\<open>__init__\<close> built (inheriting neither attribute) and \<^verbatim>\<open>train\<close> trained, the code
  raises AttributeError instead: \<^verbatim>\<open>attack_score\<close> reads \<^verbatim>\<open>self.FeatureSet\<close> (and later
  \<^verbatim>\<open>self.Classifier\<close>), attributes that no line of the sources assigns; \<^verbatim>\<open>__init__\<close>
  stores the classifier as \<^verbatim>\<open>self.classifier\<close>.
\<close>

theorem attack_score_after_train_raises:
  "trained G_trained \<and> FeatureSet G_trained = None \<and>
   attack_score extract_none predict_proba_half G_trained [Object (1 / 4)] [1] = Inl AttributeError"
  by (simp add: G_trained_def G_new_def train_def init_def fit_ok_def attack_score_def)

text \<open>
  C2. An in-place operation that fails validation is to leave the dataset as it was.
  \<^verbatim>\<open>replace\<close> in place, given records of another description, first drops the rows
  \<^verbatim>\<open>records_out\<close> from the receiver and only then reaches the description check, inside
  \<^verbatim>\<open>add_records\<close>: the call raises AssertionError and the receiver has lost row 0. The
  same call not in place raises and leaves the receiver as it was.
\<close>

theorem replace_in_place_partial_mutation:
  "replace rng_zero D_three D_other [0] True =
     (\<lparr>data = [(1, [5]), (2, [3])], description = ''s''\<rparr>, Inl AssertionError) \<and>
   description D_three \<noteq> description D_other \<and>
   fst (replace rng_zero D_three D_other [0] True) \<noteq> D_three \<and>
   replace rng_zero D_three D_other [0] False = (D_three, Inl AssertionError)"
  by (simp add: replace_def drop_records_def add_records_def add_def df_drop_def D_three_def
      D_other_def index_def len_def)

text \<open>
  C3. The identity round trip: the record made from row \<open>i\<close> of \<open>D\<close> is to have
  \<^verbatim>\<open>get_id(D) == i\<close> when the row's values occur once in \<open>D\<close>. \<^verbatim>\<open>get_id\<close> returns the
  position of the match in the merged frame, not in \<open>D\<close>: in the dataset with the rows
  3, 5, 3 the row at position 1 (label 1, values occurring once) is found at position 2
  of the merged frame, where the two rows 3 come first.
\<close>

theorem get_id_round_trip_fails:
  "get_records D_three [1] = Inr \<lparr>data = [(1, [5])], description = ''s''\<rparr> \<and>
   from_dataset \<lparr>data = [(1, [5::int])] :: (int, int) DataFrame, description = ''s''\<rparr>
     = Inr r_one \<and>
   ident r_one = 1 \<and>
   count_list (values_of (data D_three)) [5] = 1 \<and>
   get_id r_one D_three = Inr 2"
  by (simp add: get_records_def from_dataset_def get_id_def pd_merge_outer_def merge_group_def
      both_index_def values_of_def D_three_def r_one_def)

text \<open>
  C4, on labels that occur once. For a dataset \<open>D\<close> and a non-empty list \<open>S\<close> of distinct
  labels of \<open>D\<close>, each of them the label of exactly one row of \<open>D\<close> (other labels may
  repeat), \<^verbatim>\<open>drop_records(S)\<close> returns a new dataset with \<open>len D - length S\<close> rows: the rows
  of \<open>D\<close> whose label is not in \<open>S\<close>, in their order. By value, the rows of the result
  together with the dropped rows are the rows of \<open>D\<close>, duplicates counted, so the values
  of a dropped row stay only where a row that was not dropped has the same values. \<open>D\<close>
  itself is unchanged.
\<close>

theorem drop_records_labels_once:
  assumes "S \<noteq> []" and "distinct S" and "set S \<subseteq> set (index (data D))"
    and "\<forall>l\<in>set S. count_list (index (data D)) l = 1"
  shows "\<exists>R. drop_records rng D S n False = (D, Inr (Some R)) \<and>
             len R = len D - length S \<and>
             data R = filter (\<lambda>r. fst r \<notin> set S) (data D) \<and>
             mset (values_of (data R)) + mset (values_of (filter (\<lambda>r. fst r \<in> set S) (data D)))
               = mset (values_of (data D)) \<and>
             description R = description D"
proof -
  let ?R = "\<lparr>data = filter (\<lambda>r. fst r \<notin> set S) (data D), description = description D\<rparr>"
  have drop: "df_drop (data D) S = Inr (filter (\<lambda>r. fst r \<notin> set S) (data D))"
    using assms(3) by (simp add: df_drop_def list_ex_not_member)
  have run: "drop_records rng D S n False = (D, Inr (Some ?R))"
    using assms(1) by (simp add: drop_records_def drop)
  have "length (filter (\<lambda>r. fst r \<in> set S) (data D)) = length S"
    using assms(2,4) unfolding index_def by (rule length_filter_labels_once)
  then have "len ?R = len D - length S"
    by (simp add: len_def length_filter_split)
  moreover have "mset (values_of (data ?R))
      + mset (values_of (filter (\<lambda>r. fst r \<in> set S) (data D))) = mset (values_of (data D))"
    unfolding values_of_def TabularDataset.simps
    using mset_map_filter_partition [of snd "\<lambda>r. fst r \<in> set S" "data D"] by simp
  ultimately show ?thesis using run by simp
qed

text \<open>C4 on labels that occur once, at the concatenated dataset with the labels
  0, 1, 2, 0, 1 and \<open>S = [2]\<close>: the labels 0 and 1 repeat, the label 2 does not, and four
  rows stay.\<close>

theorem drop_records_labels_once_witness:
  "[2::int] \<noteq> [] \<and> distinct [2::int] \<and> set [2::int] \<subseteq> set (index (data D_cat)) \<and>
   count_list (index (data D_cat)) 2 = 1 \<and>
   \<not> distinct (index (data D_cat)) \<and>
   (\<exists>R. drop_records rng_zero D_cat [2] 1 False = (D_cat, Inr (Some R)) \<and>
        len R = len D_cat - length [2::int] \<and>
        data R = filter (\<lambda>r. fst r \<notin> set [2]) (data D_cat) \<and>
        mset (values_of (data R))
          + mset (values_of (filter (\<lambda>r. fst r \<in> set [2]) (data D_cat)))
          = mset (values_of (data D_cat)) \<and>
        description R = description D_cat)"
proof -
  have h1: "[2::int] \<noteq> []" by simp
  have h2: "distinct [2::int]" by simp
  have h3: "set [2::int] \<subseteq> set (index (data D_cat))" by (simp add: D_cat_def index_def)
  have once: "count_list (index (data D_cat)) 2 = 1" by (simp add: D_cat_def index_def)
  then have h4: "\<forall>l\<in>set [2::int]. count_list (index (data D_cat)) l = 1" by simp
  have repeated: "\<not> distinct (index (data D_cat))" by (simp add: D_cat_def index_def)
  show ?thesis
    using h1 h2 h3 once repeated drop_records_labels_once [OF h1 h2 h3 h4, of rng_zero 1]
    by blast
qed

text \<open>
  C4 as stated, for every dataset, fails where two rows share a label, as they do after
  a concatenation: \<^verbatim>\<open>DataFrame.drop\<close> removes every row that carries a dropped label. In
  the dataset with two rows labelled 0, dropping the one label 0 leaves no row, not
  one.
\<close>

theorem drop_records_duplicate_labels_counterexample:
  "snd (drop_records rng_zero D_dup [0] 1 False) = Inr (Some \<lparr>data = [], description = ''s''\<rparr>) \<and>
   [0::int] \<noteq> [] \<and> distinct [0::int] \<and> set [0::int] \<subseteq> set (index (data D_dup)) \<and>
   len \<lparr>data = [] :: (int, int) DataFrame, description = ''s''\<rparr> \<noteq> len D_dup - length [0::int]"
  by (simp add: drop_records_def df_drop_def D_dup_def index_def len_def)

text \<open>
  C5. With no ids, \<^verbatim>\<open>drop_records\<close> is to drop \<open>n\<close> distinct rows chosen at random, so
  that \<open>len D - n\<close> rows stay. The code draws the labels with \<^verbatim>\<open>np.random.choice\<close>, which
  by default draws with replacement: when the two draws from the labels 0, 1 are both 0,
  one row is dropped and one stays, where the claim leaves none.
\<close>

theorem drop_records_random_with_replacement:
  "np_random_choice rng_zero (index (data D_two)) 2 = Inr [0, 0] \<and>
   drop_records rng_zero D_two [] 2 False =
     (D_two, Inr (Some \<lparr>data = [(1, [2])], description = ''s''\<rparr>)) \<and>
   len \<lparr>data = [(1, [2::int])] :: (int, int) DataFrame, description = ''s''\<rparr> = 1 \<and>
   len D_two - 2 = 0"
  by (simp add: drop_records_def df_drop_def np_random_choice_def D_two_def index_def len_def
      rng_zero_def numeral_2_eq_2)

text \<open>
  C6. For datasets \<open>A\<close> and \<open>B\<close> of equal description, \<open>A + B\<close> has
  \<open>len A + len B\<close> rows: the rows of \<open>A\<close>, then the rows of \<open>B\<close>, by value and with
  their multiplicity. For datasets of unequal description, \<open>A + B\<close> raises
  AssertionError.
\<close>

theorem add_schema_equal:
  "(description A = description B \<longrightarrow>
      (\<exists>R. add A B = Inr R \<and> len R = len A + len B \<and> data R = data A @ data B \<and>
           values_of (data R) = values_of (data A) @ values_of (data B) \<and>
           mset (values_of (data R)) = mset (values_of (data A)) + mset (values_of (data B)) \<and>
           description R = description A)) \<and>
   (description A \<noteq> description B \<longrightarrow> add A B = Inl AssertionError)"
  by (simp add: add_def pd_concat_def len_def values_of_def)

text \<open>C6 at two datasets of the description \<open>''s''\<close>, and at one of them with a dataset of
  the description \<open>''t''\<close>.\<close>

theorem add_schema_equal_witness:
  "description D_three = description D_same \<and>
   (\<exists>R. add D_three D_same = Inr R \<and> len R = len D_three + len D_same \<and>
        data R = data D_three @ data D_same \<and>
        values_of (data R) = values_of (data D_three) @ values_of (data D_same) \<and>
        mset (values_of (data R)) = mset (values_of (data D_three)) + mset (values_of (data D_same)) \<and>
        description R = description D_three) \<and>
   description D_three \<noteq> description D_other \<and>
   add D_three D_other = Inl AssertionError"
proof -
  have same: "description D_three = description D_same"
    by (simp add: D_three_def D_same_def)
  have differ: "description D_three \<noteq> description D_other"
    by (simp add: D_three_def D_other_def)
  show ?thesis
    using add_schema_equal [of D_three D_same] add_schema_equal [of D_three D_other] same differ
    by blast
qed

text \<open>
  C7, with the classifier's contract. \<^verbatim>\<open>attack\<close> on an instance that is not trained
  raises AssertionError, and so it does on a new instance; a \<^verbatim>\<open>train\<close> that returns
  leaves the instance trained, and one that raises leaves \<^verbatim>\<open>trained\<close> as it was. On a
  trained instance \<^verbatim>\<open>attack\<close> returns the scores of \<^verbatim>\<open>predict\<close>, each rounded, in their
  order: as many guesses as there are scores, and all of them 0 or 1 exactly when every
  score lies in [-1/2, 3/2). So for a classifier whose \<^verbatim>\<open>predict\<close> gives one score per
  dataset, each in that interval, \<^verbatim>\<open>attack\<close> returns one guess per dataset, the \<open>i\<close>-th
  being 0 when the \<open>i\<close>-th score is at most 1/2 and 1 when it is above.
\<close>

theorem attack_protocol:
  "(\<not> trained G \<longrightarrow> attack predict G datasets = Inl AssertionError) \<and>
   attack predict (init fs c0 clf descr) datasets = Inl AssertionError \<and>
   (train fit gen G tm num_samples ds ls = (G', Inr ()) \<longrightarrow> trained G') \<and>
   (train fit gen G tm num_samples ds ls = (G', Inl e) \<longrightarrow> trained G' = trained G) \<and>
   (trained G \<and> predict (classifier G) datasets = Inr scores \<longrightarrow>
      attack predict G datasets = Inr (map np_round scores) \<and>
      length (map np_round scores) = length scores \<and>
      (list_all (\<lambda>g. g = 0 \<or> g = 1) (map np_round scores)
         = list_all (\<lambda>x. - 1 / 2 \<le> x \<and> x < 3 / 2) scores)) \<and>
   (trained G \<and> predict (classifier G) datasets = Inr scores \<and>
    length scores = length datasets \<and> list_all (\<lambda>x. - 1 / 2 \<le> x \<and> x < 3 / 2) scores \<longrightarrow>
      (\<exists>guesses. attack predict G datasets = Inr guesses \<and>
                 length guesses = length datasets \<and>
                 guesses = map (\<lambda>x. if x \<le> 1 / 2 then 0 else 1) scores \<and>
                 list_all (\<lambda>g. g = 0 \<or> g = 1) guesses))"
proof -
  have untrained: "\<not> trained G \<longrightarrow> attack predict G datasets = Inl AssertionError"
    by (simp add: attack_def)
  have fresh: "attack predict (init fs c0 clf descr) datasets = Inl AssertionError"
    by (simp add: attack_def init_def)
  have rounded: "trained G \<and> predict (classifier G) datasets = Inr scores \<longrightarrow>
      attack predict G datasets = Inr (map np_round scores) \<and>
      length (map np_round scores) = length scores \<and>
      (list_all (\<lambda>g. g = 0 \<or> g = 1) (map np_round scores)
         = list_all (\<lambda>x. - 1 / 2 \<le> x \<and> x < 3 / 2) scores)"
    by (simp add: attack_def np_round_binary_iff)
  have halves: "map np_round scores = map (\<lambda>x. if x \<le> 1 / 2 then 0 else 1) scores"
    if "list_all (\<lambda>x. - 1 / 2 \<le> x \<and> x < 3 / 2) scores"
    using that by (induction scores) (simp_all add: np_round_half)
  have binary: "list_all (\<lambda>g. g = 0 \<or> g = 1) (map (\<lambda>x. if x \<le> 1 / 2 then 0 else (1::rat)) scores)"
    by (induction scores) simp_all
  have run: "trained G \<and> predict (classifier G) datasets = Inr scores \<and>
    length scores = length datasets \<and> list_all (\<lambda>x. - 1 / 2 \<le> x \<and> x < 3 / 2) scores \<longrightarrow>
      (\<exists>guesses. attack predict G datasets = Inr guesses \<and>
                 length guesses = length datasets \<and>
                 guesses = map (\<lambda>x. if x \<le> 1 / 2 then 0 else 1) scores \<and>
                 list_all (\<lambda>g. g = 0 \<or> g = 1) guesses)"
  proof (intro impI, elim conjE)
    assume t: "trained G" and p: "predict (classifier G) datasets = Inr scores"
      and l: "length scores = length datasets"
      and n: "list_all (\<lambda>x. - 1 / 2 \<le> x \<and> x < 3 / 2) scores"
    let ?guesses = "map (\<lambda>x. if x \<le> 1 / 2 then 0 else (1::rat)) scores"
    have "attack predict G datasets = Inr (map np_round scores)"
      using t p by (simp add: attack_def)
    then have a: "attack predict G datasets = Inr ?guesses"
      using halves [OF n] by (simp only:)
    have len: "length ?guesses = length datasets"
      using l by (simp only: length_map)
    from a len binary show "\<exists>guesses. attack predict G datasets = Inr guesses \<and>
                 length guesses = length datasets \<and>
                 guesses = map (\<lambda>x. if x \<le> 1 / 2 then 0 else 1) scores \<and>
                 list_all (\<lambda>g. g = 0 \<or> g = 1) guesses"
      by blast
  qed
  show ?thesis
    using untrained fresh rounded run train_trained [of fit gen G tm num_samples ds ls G']
      train_failed [of fit gen G tm num_samples ds ls G' e]
    by blast
qed

text \<open>
  C7 with the contract, at a new instance, at the instance after a \<^verbatim>\<open>train\<close> whose
  \<^verbatim>\<open>fit\<close> raises, and at the instance after a \<^verbatim>\<open>train\<close> that returns, attacked with two
  datasets of scores 1/4 and 3/4: the guesses are 0 and 1.
\<close>

theorem attack_protocol_witness:
  "\<not> trained G_new \<and>
   attack predict_score G_new [1 / 4, 3 / 4] = Inl AssertionError \<and>
   train fit_fails no_samples G_new None 100 (Some [1 / 4]) (Some [0]) = (G_new, Inl ValueError) \<and>
   train fit_ok no_samples G_new None 100 (Some [1 / 4, 3 / 4]) (Some [0, 1]) = (G_trained, Inr ()) \<and>
   trained G_trained \<and>
   predict_score (classifier G_trained) [1 / 4, 3 / 4] = Inr [1 / 4, 3 / 4] \<and>
   list_all (\<lambda>x. - 1 / 2 \<le> x \<and> x < 3 / 2) [1 / 4, 3 / 4 :: rat] \<and>
   attack predict_score G_trained [1 / 4, 3 / 4] = Inr (map np_round [1 / 4, 3 / 4]) \<and>
   attack predict_score G_trained [1 / 4, 3 / 4] = Inr [0, 1] \<and>
   length [0, 1 :: rat] = length [1 / 4, 3 / 4 :: rat]"
proof -
  have new: "\<not> trained G_new"
    by (simp add: G_new_def init_def)
  have failed: "train fit_fails no_samples G_new None 100 (Some [1 / 4]) (Some [0])
      = (G_new, Inl ValueError)"
    by (simp add: train_def fit_fails_def G_new_def init_def)
  have scores: "predict_score (classifier G_trained) [1 / 4, 3 / 4] = Inr [1 / 4, 3 / 4]"
    by (simp add: predict_score_def)
  have near: "list_all (\<lambda>x. - 1 / 2 \<le> x \<and> x < 3 / 2) [1 / 4, 3 / 4 :: rat]"
    by simp
  have trained: "trained G_trained"
    using attack_protocol [of G_new predict_score "[]" None None 0 "''s''" fit_ok no_samples None 100
        "Some [1 / 4, 3 / 4]" "Some [0, 1]" G_trained ValueError "[]"] G_trained_eq
    by blast
  have untrained_attack: "attack predict_score G_new [1 / 4, 3 / 4] = Inl AssertionError"
    using attack_protocol [of G_new predict_score "[1 / 4, 3 / 4]" None None 0 "''s''" fit_fails
        no_samples None 100 "Some [1 / 4]" "Some [0]" G_new ValueError "[]"] new failed
    by blast
  note at_trained = attack_protocol [of G_trained predict_score "[1 / 4, 3 / 4]" None None 0 "''s''"
      fit_ok no_samples None 100 "Some [1 / 4, 3 / 4]" "Some [0, 1]" G_trained ValueError
      "[1 / 4, 3 / 4]"]
  have rounded: "attack predict_score G_trained [1 / 4, 3 / 4] = Inr (map np_round [1 / 4, 3 / 4])"
    using at_trained trained scores by blast
  have "\<exists>guesses. attack predict_score G_trained [1 / 4, 3 / 4] = Inr guesses \<and>
      guesses = map (\<lambda>x. if x \<le> 1 / 2 then 0 else 1) [1 / 4, 3 / 4 :: rat]"
    using at_trained trained scores near by blast
  then have guesses: "attack predict_score G_trained [1 / 4, 3 / 4] = Inr [0, 1]"
    by simp
  show ?thesis
    using new failed G_trained_eq trained scores near untrained_attack rounded guesses by simp
qed

text \<open>
  C7 as stated, for every attack, fails where the classifier's score is not within one
  half of 0 or 1: \<^verbatim>\<open>attack\<close> rounds what \<^verbatim>\<open>predict\<close> returns and does nothing else to it.
  For the one dataset of score 3/2 the trained instance guesses 2.
\<close>

theorem attack_unclamped_counterexample:
  "trained G_trained \<and>
   predict_score (classifier G_trained) [3 / 2] = Inr [3 / 2] \<and>
   attack predict_score G_trained [3 / 2] = Inr [2] \<and>
   length [2 :: rat] = length [3 / 2 :: rat] \<and>
   (2 :: rat) \<noteq> 0 \<and> (2 :: rat) \<noteq> 1"
  by (simp add: G_trained_def G_new_def train_def init_def fit_ok_def attack_def predict_score_def
      np_round_three_halves)

text \<open>
  C8. When a fraction is given, \<^verbatim>\<open>sample\<close> is to ignore \<^verbatim>\<open>n_samples\<close> and return
  \<^verbatim>\<open>int(frac * len(D))\<close> rows. The code tests \<^verbatim>\<open>if frac:\<close>, which is false for the
  fraction 0.0 as it is for \<^verbatim>\<open>None\<close>: with the fraction 0.0 and \<^verbatim>\<open>n_samples = 1\<close> on a
  dataset of three rows it returns one row, where the fraction asks for none.
\<close>

theorem sample_zero_fraction_uses_n:
  "sample rng_zero D_three 1 (Some 0) = Inr \<lparr>data = [(0, [3])], description = ''s''\<rparr> \<and>
   len \<lparr>data = [(0, [3::int])] :: (int, int) DataFrame, description = ''s''\<rparr> = 1 \<and>
   py_int (0 * of_nat (len D_three)) = 0"
  by (simp add: sample_def df_sample_def D_three_def len_def py_int_def rng_zero_def)

text \<open>
  C9. Every operation that returns a dataset returns one with the description of the
  receiver: \<^verbatim>\<open>sample\<close>, \<^verbatim>\<open>get_records\<close>, \<^verbatim>\<open>drop_records\<close>, \<^verbatim>\<open>add_records\<close> and \<^verbatim>\<open>replace\<close>
  not in place (which return a dataset, never \<^verbatim>\<open>None\<close>), \<^verbatim>\<open>empty\<close> and \<open>+\<close>.
\<close>

theorem description_preserved:
  "(sample rng D n_samples fraction = Inr R1 \<longrightarrow> description R1 = description D) \<and>
   (get_records D record_ids = Inr R2 \<longrightarrow> description R2 = description D) \<and>
   (snd (drop_records rng D ids n False) = Inr r3 \<longrightarrow>
      (\<exists>R. r3 = Some R \<and> description R = description D)) \<and>
   (snd (add_records D records False) = Inr r4 \<longrightarrow>
      (\<exists>R. r4 = Some R \<and> description R = description D)) \<and>
   (snd (replace rng D records_in records_out False) = Inr r5 \<longrightarrow>
      (\<exists>R. r5 = Some R \<and> description R = description D)) \<and>
   (empty D = Inr R6 \<longrightarrow> description R6 = description D) \<and>
   (add D other = Inr R7 \<longrightarrow> description R7 = description D)"
proof -
  have "sample rng D n_samples fraction = Inr R1 \<Longrightarrow> description R1 = description D"
    by (auto simp: sample_def Let_def split: sum.splits)
  moreover have "get_records D record_ids = Inr R2 \<Longrightarrow> description R2 = description D"
    by (auto simp: get_records_def split: sum.splits)
  moreover have "empty D = Inr R6 \<Longrightarrow> description R6 = description D"
    by (auto simp: empty_def get_records_def)
  ultimately show ?thesis
    using drop_records_description [of rng D ids n r3] add_records_description [of D records r4]
      replace_description [of rng D records_in records_out r5] add_description [of D other R7]
    by blast
qed

text \<open>C9 at the dataset with rows 3, 5, 3: each of the seven operations returns a dataset
  of its description.\<close>

theorem description_preserved_witness:
  "(\<exists>R. sample rng_zero D_three 2 None = Inr R \<and> description R = description D_three) \<and>
   (\<exists>R. get_records D_three [1] = Inr R \<and> description R = description D_three) \<and>
   (\<exists>R. snd (drop_records rng_zero D_three [0] 1 False) = Inr (Some R) \<and>
        description R = description D_three) \<and>
   (\<exists>R. snd (add_records D_three D_same False) = Inr (Some R) \<and>
        description R = description D_three) \<and>
   (\<exists>R. snd (replace rng_zero D_three D_same [0, 1] False) = Inr (Some R) \<and>
        description R = description D_three) \<and>
   (\<exists>R. empty D_three = Inr R \<and> description R = description D_three) \<and>
   (\<exists>R. add D_three D_same = Inr R \<and> description R = description D_three)"
proof -
  let ?R1 = "\<lparr>data = [(0, [3]), (1, [5])], description = ''s''\<rparr> :: (int, int, string) TabularDataset"
  let ?R2 = "\<lparr>data = [(1, [5])], description = ''s''\<rparr> :: (int, int, string) TabularDataset"
  let ?R3 = "\<lparr>data = [(1, [5]), (2, [3])], description = ''s''\<rparr> :: (int, int, string) TabularDataset"
  let ?R4 = "\<lparr>data = [(0, [3]), (1, [5]), (2, [3]), (0, [3]), (1, [8])], description = ''s''\<rparr>
               :: (int, int, string) TabularDataset"
  let ?R5 = "\<lparr>data = [(2, [3]), (0, [3]), (1, [8])], description = ''s''\<rparr>
               :: (int, int, string) TabularDataset"
  let ?R6 = "\<lparr>data = [], description = ''s''\<rparr> :: (int, int, string) TabularDataset"
  have e1: "sample rng_zero D_three 2 None = Inr ?R1"
    by (simp add: sample_def df_sample_def D_three_def rng_zero_def numeral_2_eq_2)
  have e2: "get_records D_three [1] = Inr ?R2"
    by (simp add: get_records_def D_three_def)
  have e3: "snd (drop_records rng_zero D_three [0] 1 False) = Inr (Some ?R3)"
    by (simp add: drop_records_def df_drop_def D_three_def index_def)
  have e4: "snd (add_records D_three D_same False) = Inr (Some ?R4)"
    by (simp add: add_records_def add_def pd_concat_def D_three_def D_same_def)
  have e5: "snd (replace rng_zero D_three D_same [0, 1] False) = Inr (Some ?R5)"
    by (simp add: replace_def drop_records_def df_drop_def add_records_def add_def pd_concat_def
        D_three_def D_same_def index_def len_def)
  have e6: "empty D_three = Inr ?R6"
    by (simp add: empty_def get_records_def D_three_def)
  have e7: "add D_three D_same = Inr ?R4"
    by (simp add: add_def pd_concat_def D_three_def D_same_def)
  note preserved = description_preserved [where rng = rng_zero and D = D_three
      and n_samples = 2 and fraction = None and ?R1.0 = ?R1
      and record_ids = "[1]" and ?R2.0 = ?R2
      and ids = "[0]" and n = 1 and ?r3.0 = "Some ?R3"
      and records = D_same and ?r4.0 = "Some ?R4"
      and records_in = D_same and records_out = "[0, 1]" and ?r5.0 = "Some ?R5"
      and ?R6.0 = ?R6 and other = D_same and ?R7.0 = ?R4]
  from preserved e1 have d1: "description ?R1 = description D_three" by blast
  from preserved e2 have d2: "description ?R2 = description D_three" by blast
  from preserved e3 have d3: "description ?R3 = description D_three" by blast
  from preserved e4 have d4: "description ?R4 = description D_three" by blast
  from preserved e5 have d5: "description ?R5 = description D_three" by blast
  from preserved e6 have d6: "description ?R6 = description D_three" by blast
  show ?thesis
    using e1 e2 e3 e4 e5 e6 e7 d1 d2 d3 d4 d5 d6 by blast
qed

text \<open>
  C10. On a record \<open>r\<close> with its one row, \<^verbatim>\<open>set_id(x)\<close> returns nothing and leaves
  \<open>r.id = x\<close> and \<open>x\<close> as the index label of the row, whose values and description are
  as before; \<^verbatim>\<open>from_dataset\<close> of the record is then a record with the identifier \<open>x\<close>.
\<close>

theorem set_id_single_row:
  assumes "length (data r) = 1"
  shows "\<exists>r'. set_id r x = (r', Inr ()) \<and> ident r' = x \<and> index (data r') = [x] \<and>
              values_of (data r') = values_of (data r) \<and> description r' = description r \<and>
              (\<exists>r''. from_dataset r' = Inr r'' \<and> ident r'' = x \<and> data r'' = data r')"
proof -
  from assms obtain row where "data r = [row]"
    by (cases "data r") auto
  then show ?thesis
    by (simp add: set_id_def from_dataset_def index_def values_of_def)
qed

text \<open>C10 at the record of the row 5 with identifier 1, relabelled 9.\<close>

theorem set_id_single_row_witness:
  "length (data r_one) = 1 \<and>
   (\<exists>r'. set_id r_one 9 = (r', Inr ()) \<and> ident r' = 9 \<and> index (data r') = [9] \<and>
         values_of (data r') = values_of (data r_one) \<and> description r' = description r_one \<and>
         (\<exists>r''. from_dataset r' = Inr r'' \<and> ident r'' = 9 \<and> data r'' = data r'))"
proof -
  have one: "length (data r_one) = 1" by (simp add: r_one_def)
  show ?thesis
    using one set_id_single_row [OF one, of 9] by blast
qed

end
